theory Spec2Isabelle
  imports Main
begin

section \<open>Values of the Python program\<close>

text \<open>
  A Python float is kept as what it denotes: a finite value \<open>m * 2^e\<close>, an infinity with
  its sign, or a NaN. The program only ever asks whether such a value is zero.
\<close>

datatype pyfloat = Finite int int | Infinite bool | NaN

text \<open>
  What \<open>response.json()\<close> returns: Python's \<open>None\<close>, \<open>bool\<close>, \<open>int\<close>, \<open>float\<close>, \<open>str\<close>,
  \<open>list\<close> and \<open>dict\<close> (its items in order, looked up with \<open>map_of\<close>).
\<close>

datatype json =
    JNull
  | JBool bool
  | JInt int
  | JFloat pyfloat
  | JStr string
  | JArr "json list"
  | JObj "(string \<times> json) list"

datatype py_exception =
    KeyError string
  | TypeError
  | AttributeError
  | JSONDecodeError
  | ValueError
  | RequestException string
  | UnidentifiedImageError
  | OtherError string

text \<open>A PIL image: its \<open>size\<close> (width, height), its mode and its raster data.\<close>

record image =
  img_size :: "int \<times> int"
  img_mode :: string
  img_data :: "nat list"

section \<open>The HTTP library as the program uses it\<close>

type_synonym headers = "(string \<times> string option) list"

text \<open>
  The arguments of \<open>requests.post(url, json=..., headers=...)\<close> and of
  \<open>requests.get(url, headers=...)\<close> (\<open>None\<close> when no headers are passed). The URL of a
  \<open>get\<close> is whatever value the program passes, so it is a \<open>json\<close>.
\<close>

datatype request =
    Post string json headers
  | Get json "headers option"

text \<open>
  A \<open>requests.Response\<close>: \<open>status_code\<close>, \<open>text\<close> (here \<open>text_r\<close>), \<open>content\<close>, and what \<open>json()\<close> returns
  (\<open>None\<close> when the body is not JSON and \<open>json()\<close> raises).
\<close>

record response =
  status_code :: int
  text_r :: string
  content :: string
  body_json :: "json option"

text \<open>
  \<open>Response.ok\<close> of the requests library: true unless \<open>raise_for_status()\<close> raises, which
  it does for \<open>400 <= status_code < 600\<close>.
\<close>

definition ok :: "response \<Rightarrow> bool" where
  "ok r = (\<not> (400 \<le> status_code r \<and> status_code r < 600))"

text \<open>
  The remote side: given the requests issued so far and the next one, the response or
  the exception the library raises.
\<close>

type_synonym server = "request list \<Rightarrow> request \<Rightarrow> py_exception + response"

section \<open>Python primitives\<close>

text \<open>Truth value of an object, as \<open>not x\<close> tests it.\<close>

fun truthy :: "json \<Rightarrow> bool" where
  "truthy JNull = False"
| "truthy (JBool b) = b"
| "truthy (JInt i) = (i \<noteq> 0)"
| "truthy (JFloat f) = (case f of Finite m e \<Rightarrow> m \<noteq> 0 | _ \<Rightarrow> True)"
| "truthy (JStr s) = (s \<noteq> [])"
| "truthy (JArr xs) = (xs \<noteq> [])"
| "truthy (JObj d) = (d \<noteq> [])"

text \<open>\<open>x.get(k)\<close>: only a dict has the method; a missing key gives \<open>None\<close>.\<close>

definition py_get :: "json \<Rightarrow> string \<Rightarrow> py_exception + json" where
  "py_get x k =
     (case x of
        JObj d \<Rightarrow> Inr (case map_of d k of None \<Rightarrow> JNull | Some v \<Rightarrow> v)
      | _ \<Rightarrow> Inl AttributeError)"

text \<open>\<open>x[k]\<close> with a string key: \<open>KeyError\<close> on a dict without it, \<open>TypeError\<close> on
  anything that is not a dict.\<close>

definition py_getitem :: "json \<Rightarrow> string \<Rightarrow> py_exception + json" where
  "py_getitem x k =
     (case x of
        JObj d \<Rightarrow> (case map_of d k of None \<Rightarrow> Inl (KeyError k) | Some v \<Rightarrow> Inr v)
      | _ \<Rightarrow> Inl TypeError)"

text \<open>\<open>str(n)\<close> of an int, as the f-string formats \<open>status_code\<close>.\<close>

definition digit_char :: "nat \<Rightarrow> char" where
  "digit_char d = ''0123456789'' ! d"

fun digits :: "nat \<Rightarrow> string" where
  "digits n = (if n < 10 then [digit_char n] else digits (n div 10) @ [digit_char (n mod 10)])"

definition str_int :: "int \<Rightarrow> string" where
  "str_int i = (if i < 0 then CHR ''-'' # digits (nat (- i)) else digits (nat i))"

section \<open>app.py\<close>

definition BASE_URL :: string where
  "BASE_URL = ''https://api.bfl.ai/v1''"

definition GEN_PATH :: string where
  "GEN_PATH = ''/flux-pro-1.1-ultra''"

type_synonym result = "py_exception + (image option \<times> string option)"

text \<open>
  Lines 35-36, the body of \<open>if r2.get("status") == "Ready"\<close>: both subscripts, the plain
  \<open>get\<close> of the sample and \<open>Image.open\<close> on its content. \<open>tr\<close> is the list of requests
  issued so far.
\<close>

definition ready_branch ::
  "server \<Rightarrow> (string \<Rightarrow> py_exception + image) \<Rightarrow> json \<Rightarrow> request list \<Rightarrow> result \<times> request list"
where
  "ready_branch srv image_open r2 tr =
     (case py_getitem r2 ''result'' of
        Inl e \<Rightarrow> (Inl e, tr)
      | Inr res \<Rightarrow>
         (case py_getitem res ''sample'' of
            Inl e \<Rightarrow> (Inl e, tr)
          | Inr sample \<Rightarrow>
             (case srv tr (Get sample None) of
                Inl e \<Rightarrow> (Inl e, tr @ [Get sample None])
              | Inr img_response \<Rightarrow>
                 (case image_open (content img_response) of
                    Inl e \<Rightarrow> (Inl e, tr @ [Get sample None])
                  | Inr img \<Rightarrow> (Inr (Some img, None), tr @ [Get sample None])))))"

text \<open>
  Lines 32-36, \<open>for _ in range(n)\<close>: \<open>None\<close> when the loop runs out without returning,
  otherwise what the body returned or raised.
\<close>

fun poll_loop ::
  "server \<Rightarrow> (string \<Rightarrow> py_exception + image) \<Rightarrow> json \<Rightarrow> headers \<Rightarrow> nat \<Rightarrow> request list
     \<Rightarrow> result option \<times> request list"
where
  "poll_loop srv image_open polling_url hdrs 0 tr = (None, tr)"
| "poll_loop srv image_open polling_url hdrs (Suc n) tr =
     (case srv tr (Get polling_url (Some hdrs)) of
        Inl e \<Rightarrow> (Some (Inl e), tr @ [Get polling_url (Some hdrs)])
      | Inr resp \<Rightarrow>
         (case body_json resp of
            None \<Rightarrow> (Some (Inl JSONDecodeError), tr @ [Get polling_url (Some hdrs)])
          | Some r2 \<Rightarrow>
             (case py_get r2 ''status'' of
                Inl e \<Rightarrow> (Some (Inl e), tr @ [Get polling_url (Some hdrs)])
              | Inr st \<Rightarrow>
                 if st = JStr ''Ready''
                 then (case ready_branch srv image_open r2 (tr @ [Get polling_url (Some hdrs)]) of
                         (res, tr') \<Rightarrow> (Some res, tr'))
                 else poll_loop srv image_open polling_url hdrs n
                        (tr @ [Get polling_url (Some hdrs)]))))"

text \<open>
  \<open>generate_image(prompt)\<close>. \<open>FLUX_API_KEY\<close> is what \<open>os.getenv\<close> gave (possibly \<open>None\<close>),
  \<open>srv\<close> the remote side and \<open>image_open\<close> is \<open>Image.open\<close> on the bytes. The value is
  what the call returns or raises, with the requests it issued, in order.
\<close>

definition generate_image ::
  "string option \<Rightarrow> server \<Rightarrow> (string \<Rightarrow> py_exception + image) \<Rightarrow> string \<Rightarrow> result \<times> request list"
where
  "generate_image FLUX_API_KEY srv image_open prompt =
     (let hdrs = [(''x-key'', FLUX_API_KEY), (''accept'', Some ''application/json'')];
          payload = JObj [(''prompt'', JStr prompt), (''aspect_ratio'', JStr ''1:1'')];
          rq = Post (BASE_URL @ GEN_PATH) payload hdrs
      in case srv [] rq of
           Inl e \<Rightarrow> (Inl e, [rq])
         | Inr response \<Rightarrow>
            if \<not> ok response
            then (Inr (None, Some (''Error: '' @ str_int (status_code response) @ '' '' @ text_r response)), [rq])
            else (case body_json response of
                    None \<Rightarrow> (Inl JSONDecodeError, [rq])
                  | Some data \<Rightarrow>
                     (case py_get data ''polling_url'' of
                        Inl e \<Rightarrow> (Inl e, [rq])
                      | Inr polling_url \<Rightarrow>
                         if \<not> truthy polling_url
                         then (Inr (None, Some ''No polling URL returned''), [rq])
                         else (case poll_loop srv image_open polling_url hdrs 60 [rq] of
                                 (Some res, tr) \<Rightarrow> (res, tr)
                               | (None, tr) \<Rightarrow> (Inr (None, Some ''Timeout waiting for image''), tr)))))"

section \<open>Vocabulary of the properties\<close>

definition is_post :: "request \<Rightarrow> bool" where
  "is_post rq = (case rq of Post _ _ _ \<Rightarrow> True | Get _ _ \<Rightarrow> False)"

text \<open>A poll is a \<open>get\<close> that carries headers; the fetch of the sample carries none.\<close>

definition authenticated_get :: "request \<Rightarrow> bool" where
  "authenticated_get rq = (case rq of Get _ (Some _) \<Rightarrow> True | _ \<Rightarrow> False)"

text \<open>
  The requests of the protocol, in the spec's words: the creation endpoint is
  \<open>POST {base_url}{model_path}\<close> with the JSON body \<open>{prompt, aspect_ratio}\<close> and the headers
  \<open>x-key\<close> and \<open>accept\<close>; the poll endpoint is \<open>GET {polling_url}\<close> with the same headers.
\<close>

definition auth_headers :: "string option \<Rightarrow> headers" where
  "auth_headers key = [(''x-key'', key), (''accept'', Some ''application/json'')]"

definition creation_request :: "string option \<Rightarrow> string \<Rightarrow> request" where
  "creation_request key prompt =
     Post ''https://api.bfl.ai/v1/flux-pro-1.1-ultra''
       (JObj [(''prompt'', JStr prompt), (''aspect_ratio'', JStr ''1:1'')])
       (auth_headers key)"

definition poll_request :: "string option \<Rightarrow> json \<Rightarrow> request" where
  "poll_request key u = Get u (Some (auth_headers key))"

text \<open>The creation reply passes both checks of lines 23-29 and names \<open>u\<close> to poll.\<close>

definition accepts :: "py_exception + response \<Rightarrow> json \<Rightarrow> bool" where
  "accepts reply u =
     (case reply of
        Inl _ \<Rightarrow> False
      | Inr r \<Rightarrow>
         ok r \<and>
         (case body_json r of
            None \<Rightarrow> False
          | Some data \<Rightarrow> py_get data ''polling_url'' = Inr u \<and> truthy u))"

text \<open>A poll reply that is a JSON object whose \<open>status\<close> is not \<open>"Ready"\<close>.\<close>

definition pending :: "py_exception + response \<Rightarrow> bool" where
  "pending reply =
     (case reply of
        Inl _ \<Rightarrow> False
      | Inr r \<Rightarrow>
         (case body_json r of
            None \<Rightarrow> False
          | Some r2 \<Rightarrow>
             (case py_get r2 ''status'' of Inl _ \<Rightarrow> False | Inr st \<Rightarrow> st \<noteq> JStr ''Ready'')))"

text \<open>A poll reply with JSON body \<open>r2\<close> whose \<open>status\<close> is \<open>"Ready"\<close>.\<close>

definition ready :: "py_exception + response \<Rightarrow> json \<Rightarrow> bool" where
  "ready reply r2 =
     (case reply of
        Inl _ \<Rightarrow> False
      | Inr r \<Rightarrow> body_json r = Some r2 \<and> py_get r2 ''status'' = Inr (JStr ''Ready''))"

text \<open>The body has no \<open>result\<close> field, or its \<open>result\<close> has no \<open>sample\<close> field.\<close>

definition lacks_sample :: "json \<Rightarrow> bool" where
  "lacks_sample r2 =
     (case r2 of
        JObj d \<Rightarrow>
         (case map_of d ''result'' of
            None \<Rightarrow> True
          | Some (JObj d') \<Rightarrow> map_of d' ''sample'' = None
          | Some _ \<Rightarrow> True)
      | _ \<Rightarrow> True)"

section \<open>Concrete runs\<close>

definition json_response :: "int \<Rightarrow> json \<Rightarrow> response" where
  "json_response code j = \<lparr>status_code = code, text_r = [], content = [], body_json = Some j\<rparr>"

definition sunset_image :: image where
  "sunset_image = \<lparr>img_size = (1, 1), img_mode = ''RGB'', img_data = [255, 128, 0]\<rparr>"

definition png_open :: "string \<Rightarrow> py_exception + image" where
  "png_open bytes = (if bytes = ''PNG-1'' then Inr sunset_image else Inl UnidentifiedImageError)"

text \<open>
  The provider of the scenario: the creation call names \<open>https://x/p/1\<close>, the first two
  polls are pending, the third is ready, and the sample URL serves the image bytes.
\<close>

definition scenario_srv :: server where
  "scenario_srv tr rq =
     (case rq of
        Post _ _ _ \<Rightarrow> Inr (json_response 200 (JObj [(''polling_url'', JStr ''https://x/p/1'')]))
      | Get _ (Some _) \<Rightarrow>
         (if length tr < 3
          then Inr (json_response 200 (JObj [(''status'', JStr ''Pending'')]))
          else Inr (json_response 200
                 (JObj [(''status'', JStr ''Ready''),
                        (''result'', JObj [(''sample'', JStr ''https://x/img/1.png'')])])))
      | Get _ None \<Rightarrow>
         Inr \<lparr>status_code = 200, text_r = [], content = ''PNG-1'', body_json = None\<rparr>)"

text \<open>A provider whose job never leaves \<open>Pending\<close>.\<close>

definition pending_srv :: server where
  "pending_srv tr rq =
     (case rq of
        Post _ _ _ \<Rightarrow> Inr (json_response 200 (JObj [(''polling_url'', JStr ''https://x/p/1'')]))
      | Get _ _ \<Rightarrow> Inr (json_response 200 (JObj [(''status'', JStr ''Pending'')])))"

text \<open>A provider that answers the creation call with 401 and the text \<open>unauthorized\<close>.\<close>

definition unauthorized_srv :: server where
  "unauthorized_srv tr rq =
     Inr \<lparr>status_code = 401, text_r = ''unauthorized'', content = ''unauthorized'', body_json = None\<rparr>"

text \<open>A provider that answers the creation call with 503 and the text \<open>busy\<close>.\<close>

definition busy_srv :: server where
  "busy_srv tr rq =
     Inr \<lparr>status_code = 503, text_r = ''busy'', content = ''busy'', body_json = None\<rparr>"

text \<open>A provider that answers the creation call with 304 and an empty body.\<close>

definition not_modified_srv :: server where
  "not_modified_srv tr rq =
     Inr \<lparr>status_code = 304, text_r = [], content = [], body_json = None\<rparr>"

text \<open>A provider that answers 200 with a JSON object that has no \<open>polling_url\<close>.\<close>

definition no_url_srv :: server where
  "no_url_srv tr rq = Inr (json_response 200 (JObj [(''id'', JStr ''job-1'')]))"

text \<open>A provider that answers 200 with an empty JSON object.\<close>

definition empty_object_srv :: server where
  "empty_object_srv tr rq = Inr (json_response 200 (JObj []))"

text \<open>A provider that answers 200 with \<open>{"polling_url": ""}\<close>.\<close>

definition empty_url_srv :: server where
  "empty_url_srv tr rq = Inr (json_response 200 (JObj [(''polling_url'', JStr [])]))"

text \<open>A provider whose first poll is ready but carries no \<open>result\<close>.\<close>

definition ready_no_result_srv :: server where
  "ready_no_result_srv tr rq =
     (case rq of
        Post _ _ _ \<Rightarrow> Inr (json_response 200 (JObj [(''polling_url'', JStr ''https://x/p/1'')]))
      | Get _ _ \<Rightarrow> Inr (json_response 200 (JObj [(''status'', JStr ''Ready'')])))"

section \<open>The polling loop\<close>

lemma poll_loop_pending_step:
  "pending (srv tr (Get u (Some hdrs))) \<Longrightarrow>
   poll_loop srv image_open u hdrs (Suc n) tr = poll_loop srv image_open u hdrs n (tr @ [Get u (Some hdrs)])"
  by (auto simp: pending_def split: sum.splits option.splits)

lemma poll_loop_ready_step:
  "ready (srv tr (Get u (Some hdrs))) r2 \<Longrightarrow>
   poll_loop srv image_open u hdrs (Suc n) tr =
     (Some (fst (ready_branch srv image_open r2 (tr @ [Get u (Some hdrs)]))),
      snd (ready_branch srv image_open r2 (tr @ [Get u (Some hdrs)])))"
  by (auto simp: ready_def split: sum.splits option.splits prod.splits)

lemma poll_loop_pending_prefix:
  "(\<And>i. i < k \<Longrightarrow> pending (srv (tr @ replicate i (Get u (Some hdrs))) (Get u (Some hdrs)))) \<Longrightarrow>
   poll_loop srv image_open u hdrs (k + n) tr =
     poll_loop srv image_open u hdrs n (tr @ replicate k (Get u (Some hdrs)))"
proof (induction k arbitrary: tr)
  case 0
  then show ?case by simp
next
  case (Suc k)
  let ?pr = "Get u (Some hdrs)"
  have first: "pending (srv tr ?pr)"
    using Suc.prems [of 0] by simp
  have rest: "pending (srv ((tr @ [?pr]) @ replicate i ?pr) ?pr)" if "i < k" for i
    using Suc.prems [of "Suc i"] that by simp
  have "poll_loop srv image_open u hdrs (Suc k + n) tr = poll_loop srv image_open u hdrs (k + n) (tr @ [?pr])"
    using first poll_loop_pending_step [of srv tr u hdrs image_open "k + n"] by simp
  also have "\<dots> = poll_loop srv image_open u hdrs n ((tr @ [?pr]) @ replicate k ?pr)"
    using Suc.IH [of "tr @ [?pr]"] rest by blast
  finally show ?case by (simp add: replicate_append_same)
qed

lemma ready_branch_trace:
  "snd (ready_branch srv image_open r2 tr) = tr \<or> (\<exists>s. snd (ready_branch srv image_open r2 tr) = tr @ [Get s None])"
  by (auto simp: ready_branch_def split: sum.splits)

lemma ready_branch_result:
  "(\<exists>e. fst (ready_branch srv image_open r2 tr) = Inl e) \<or>
   (\<exists>img. fst (ready_branch srv image_open r2 tr) = Inr (Some img, None))"
  by (auto simp: ready_branch_def split: sum.splits)

lemma ready_branch_lacks:
  "py_get r2 ''status'' = Inr st \<Longrightarrow> lacks_sample r2 \<Longrightarrow>
   snd (ready_branch srv image_open r2 tr) = tr \<and>
   fst (ready_branch srv image_open r2 tr) \<in> {Inl (KeyError ''result''), Inl (KeyError ''sample''), Inl TypeError}"
  by (auto simp: ready_branch_def lacks_sample_def py_get_def py_getitem_def
      split: json.splits option.splits)

lemma ready_branch_success:
  "py_getitem r2 ''result'' = Inr res \<Longrightarrow> py_getitem res ''sample'' = Inr s \<Longrightarrow>
   srv tr (Get s None) = Inr ir \<Longrightarrow> image_open (content ir) = Inr img \<Longrightarrow>
   ready_branch srv image_open r2 tr = (Inr (Some img, None), tr @ [Get s None])"
  by (simp add: ready_branch_def)

text \<open>Whatever the provider does, \<open>n\<close> rounds issue at most \<open>n\<close> polls, all to the same
  URL, then at most one plain fetch.\<close>

lemma poll_loop_trace:
  "\<exists>k fin. k \<le> n \<and> (n = 0 \<or> 1 \<le> k) \<and>
     snd (poll_loop srv image_open u hdrs n tr) = tr @ replicate k (Get u (Some hdrs)) @ fin \<and>
     (fin = [] \<or> (\<exists>s. fin = [Get s None]))"
proof (induction n arbitrary: tr)
  case 0
  show ?case by simp
next
  case (Suc n)
  let ?pr = "Get u (Some hdrs)"
  have "snd (poll_loop srv image_open u hdrs (Suc n) tr) = tr @ [?pr] \<or>
        (\<exists>r2. snd (poll_loop srv image_open u hdrs (Suc n) tr) = snd (ready_branch srv image_open r2 (tr @ [?pr]))) \<or>
        poll_loop srv image_open u hdrs (Suc n) tr = poll_loop srv image_open u hdrs n (tr @ [?pr])"
    by (simp split: sum.split option.split prod.split) (metis snd_conv)
  then consider (stop) "snd (poll_loop srv image_open u hdrs (Suc n) tr) = tr @ [?pr]"
    | (fetch) r2 where "snd (poll_loop srv image_open u hdrs (Suc n) tr) = snd (ready_branch srv image_open r2 (tr @ [?pr]))"
    | (go) "poll_loop srv image_open u hdrs (Suc n) tr = poll_loop srv image_open u hdrs n (tr @ [?pr])"
    by blast
  then show ?case
  proof cases
    case stop
    then have "snd (poll_loop srv image_open u hdrs (Suc n) tr) = tr @ replicate 1 ?pr @ []" by simp
    then show ?thesis by (metis One_nat_def Suc_le_mono le0 le_refl)
  next
    case (fetch r2)
    from ready_branch_trace [of srv image_open r2 "tr @ [?pr]"]
    obtain fin where "snd (ready_branch srv image_open r2 (tr @ [?pr])) = tr @ replicate 1 ?pr @ fin"
      and "fin = [] \<or> (\<exists>s. fin = [Get s None])"
      by auto
    with fetch show ?thesis by (metis One_nat_def Suc_le_mono le0 le_refl)
  next
    case go
    from Suc.IH [of "tr @ [?pr]"] obtain k fin where k: "k \<le> n"
      and tr: "snd (poll_loop srv image_open u hdrs n (tr @ [?pr])) = (tr @ [?pr]) @ replicate k ?pr @ fin"
      and fin: "fin = [] \<or> (\<exists>s. fin = [Get s None])"
      by blast
    have "snd (poll_loop srv image_open u hdrs (Suc n) tr) = tr @ replicate (Suc k) ?pr @ fin"
      using go tr by simp
    moreover have "Suc k \<le> Suc n" "1 \<le> Suc k" using k by simp_all
    ultimately show ?thesis using fin by blast
  qed
qed

lemma poll_loop_result:
  "fst (poll_loop srv image_open u hdrs n tr) = None \<or>
   (\<exists>e. fst (poll_loop srv image_open u hdrs n tr) = Some (Inl e)) \<or>
   (\<exists>img. fst (poll_loop srv image_open u hdrs n tr) = Some (Inr (Some img, None)))"
proof (induction n arbitrary: tr)
  case 0
  show ?case by simp
next
  case (Suc n)
  let ?pr = "Get u (Some hdrs)"
  have "(\<exists>e. fst (poll_loop srv image_open u hdrs (Suc n) tr) = Some (Inl e)) \<or>
        (\<exists>r2. fst (poll_loop srv image_open u hdrs (Suc n) tr) = Some (fst (ready_branch srv image_open r2 (tr @ [?pr])))) \<or>
        poll_loop srv image_open u hdrs (Suc n) tr = poll_loop srv image_open u hdrs n (tr @ [?pr])"
    by (simp split: sum.split option.split prod.split) (metis fst_conv)
  then consider (stop) e where "fst (poll_loop srv image_open u hdrs (Suc n) tr) = Some (Inl e)"
    | (fetch) r2 where "fst (poll_loop srv image_open u hdrs (Suc n) tr) = Some (fst (ready_branch srv image_open r2 (tr @ [?pr])))"
    | (go) "poll_loop srv image_open u hdrs (Suc n) tr = poll_loop srv image_open u hdrs n (tr @ [?pr])"
    by blast
  then show ?case
  proof cases
    case (stop e)
    then show ?thesis by blast
  next
    case (fetch r2)
    with ready_branch_result [of srv image_open r2 "tr @ [?pr]"] show ?thesis by auto
  next
    case go
    with Suc.IH [of "tr @ [?pr]"] show ?thesis by simp
  qed
qed

section \<open>From the loop to \<open>generate_image\<close>\<close>

lemma creation_url:
  "BASE_URL @ GEN_PATH = ''https://api.bfl.ai/v1/flux-pro-1.1-ultra''"
  by (simp add: BASE_URL_def GEN_PATH_def)

lemma generate_image_unfold:
  "generate_image key srv image_open prompt =
     (case srv [] (creation_request key prompt) of
        Inl e \<Rightarrow> (Inl e, [creation_request key prompt])
      | Inr response \<Rightarrow>
         if \<not> ok response
         then (Inr (None, Some (''Error: '' @ str_int (status_code response) @ '' '' @ text_r response)),
               [creation_request key prompt])
         else (case body_json response of
                 None \<Rightarrow> (Inl JSONDecodeError, [creation_request key prompt])
               | Some data \<Rightarrow>
                  (case py_get data ''polling_url'' of
                     Inl e \<Rightarrow> (Inl e, [creation_request key prompt])
                   | Inr polling_url \<Rightarrow>
                      if \<not> truthy polling_url
                      then (Inr (None, Some ''No polling URL returned''), [creation_request key prompt])
                      else (case poll_loop srv image_open polling_url (auth_headers key) 60
                                   [creation_request key prompt] of
                              (Some res, tr) \<Rightarrow> (res, tr)
                            | (None, tr) \<Rightarrow> (Inr (None, Some ''Timeout waiting for image''), tr)))))"
  unfolding generate_image_def Let_def creation_url creation_request_def auth_headers_def
  by (rule refl)

lemma generate_image_accepted:
  assumes "accepts (srv [] (creation_request key prompt)) u"
  shows "generate_image key srv image_open prompt =
     (case poll_loop srv image_open u (auth_headers key) 60 [creation_request key prompt] of
        (Some res, tr) \<Rightarrow> (res, tr)
      | (None, tr) \<Rightarrow> (Inr (None, Some ''Timeout waiting for image''), tr))"
  using assms unfolding generate_image_unfold
  by (auto simp: accepts_def split: sum.splits option.splits)

lemma generate_image_trace_cases:
  "snd (generate_image key srv image_open prompt) = [creation_request key prompt] \<or>
   (\<exists>u. snd (generate_image key srv image_open prompt) =
      snd (poll_loop srv image_open u (auth_headers key) 60 [creation_request key prompt]))"
proof (cases "\<exists>u. accepts (srv [] (creation_request key prompt)) u")
  case True
  then obtain u where "accepts (srv [] (creation_request key prompt)) u" ..
  then have "snd (generate_image key srv image_open prompt) =
      snd (poll_loop srv image_open u (auth_headers key) 60 [creation_request key prompt])"
    by (simp add: generate_image_accepted split: prod.split option.split)
  then show ?thesis by blast
next
  case False
  then have "snd (generate_image key srv image_open prompt) = [creation_request key prompt]"
    unfolding generate_image_unfold accepts_def
    by (auto split: sum.splits option.splits)
  then show ?thesis ..
qed

lemma filter_trace_shape:
  assumes "fin = [] \<or> (\<exists>s. fin = [Get s None])"
  shows "filter authenticated_get (creation_request key prompt # replicate k (Get u (Some h)) @ fin)
           = replicate k (Get u (Some h))"
    and "filter is_post (creation_request key prompt # replicate k (Get u (Some h)) @ fin)
           = [creation_request key prompt]"
  using assms by (auto simp: authenticated_get_def is_post_def creation_request_def)

lemma generate_image_polls_le:
  "length (filter authenticated_get (snd (generate_image key srv image_open prompt))) \<le> 60"
proof -
  consider "snd (generate_image key srv image_open prompt) = [creation_request key prompt]"
    | u where "snd (generate_image key srv image_open prompt) =
        snd (poll_loop srv image_open u (auth_headers key) 60 [creation_request key prompt])"
    using generate_image_trace_cases by blast
  then show ?thesis
  proof cases
    case 1
    then show ?thesis by (simp add: authenticated_get_def creation_request_def)
  next
    case 2
    from poll_loop_trace [of 60 srv image_open u "auth_headers key" "[creation_request key prompt]"]
    obtain k fin where k: "k \<le> 60"
      and tr: "snd (poll_loop srv image_open u (auth_headers key) 60 [creation_request key prompt])
             = creation_request key prompt # replicate k (Get u (Some (auth_headers key))) @ fin"
      and fin: "fin = [] \<or> (\<exists>s. fin = [Get s None])"
      by auto
    have "filter authenticated_get (snd (generate_image key srv image_open prompt))
            = replicate k (Get u (Some (auth_headers key)))"
      unfolding 2 tr using fin by (rule filter_trace_shape(1))
    then show ?thesis using k by simp
  qed
qed

lemma generate_image_one_post:
  "filter is_post (snd (generate_image key srv image_open prompt)) = [creation_request key prompt]"
proof -
  consider "snd (generate_image key srv image_open prompt) = [creation_request key prompt]"
    | u where "snd (generate_image key srv image_open prompt) =
        snd (poll_loop srv image_open u (auth_headers key) 60 [creation_request key prompt])"
    using generate_image_trace_cases by blast
  then show ?thesis
  proof cases
    case 1
    then show ?thesis by (simp add: is_post_def creation_request_def)
  next
    case 2
    from poll_loop_trace [of 60 srv image_open u "auth_headers key" "[creation_request key prompt]"]
    obtain k fin where
      tr: "snd (poll_loop srv image_open u (auth_headers key) 60 [creation_request key prompt])
             = creation_request key prompt # replicate k (Get u (Some (auth_headers key))) @ fin"
      and fin: "fin = [] \<or> (\<exists>s. fin = [Get s None])"
      by auto
    show ?thesis
      unfolding 2 tr using fin by (rule filter_trace_shape(2))
  qed
qed

lemma poll_loop_until_ready:
  assumes pend: "\<And>i. i < k \<Longrightarrow> pending (srv (tr @ replicate i (Get u (Some h))) (Get u (Some h)))"
    and rdy: "ready (srv (tr @ replicate k (Get u (Some h))) (Get u (Some h))) r2"
    and k: "k < n"
  shows "poll_loop srv image_open u h n tr =
     (Some (fst (ready_branch srv image_open r2 (tr @ replicate (Suc k) (Get u (Some h))))),
      snd (ready_branch srv image_open r2 (tr @ replicate (Suc k) (Get u (Some h)))))"
proof -
  let ?pr = "Get u (Some h)"
  from k obtain m where n: "n = k + Suc m"
    by (auto simp: less_iff_Suc_add)
  have app: "(tr @ replicate k ?pr) @ [?pr] = tr @ replicate (Suc k) ?pr"
    by (simp add: replicate_append_same)
  have "poll_loop srv image_open u h (k + Suc m) tr = poll_loop srv image_open u h (Suc m) (tr @ replicate k ?pr)"
    by (rule poll_loop_pending_prefix [of k srv tr u h image_open "Suc m"]) (rule pend)
  also have "\<dots> = (Some (fst (ready_branch srv image_open r2 ((tr @ replicate k ?pr) @ [?pr]))),
                     snd (ready_branch srv image_open r2 ((tr @ replicate k ?pr) @ [?pr])))"
    by (rule poll_loop_ready_step [of srv "tr @ replicate k ?pr" u h r2 image_open m]) (rule rdy)
  finally show ?thesis
    unfolding n app .
qed

lemma poll_loop_never_ready:
  assumes "\<And>i. i < n \<Longrightarrow> pending (srv (tr @ replicate i (Get u (Some h))) (Get u (Some h)))"
  shows "poll_loop srv image_open u h n tr = (None, tr @ replicate n (Get u (Some h)))"
proof -
  have "poll_loop srv image_open u h (n + 0) tr = poll_loop srv image_open u h 0 (tr @ replicate n (Get u (Some h)))"
    by (rule poll_loop_pending_prefix [of n srv tr u h image_open 0]) (rule assms)
  then show ?thesis by simp
qed

lemma generate_image_first:
  "\<exists>rest. snd (generate_image key srv image_open prompt) = creation_request key prompt # rest"
proof -
  consider "snd (generate_image key srv image_open prompt) = [creation_request key prompt]"
    | u where "snd (generate_image key srv image_open prompt) =
        snd (poll_loop srv image_open u (auth_headers key) 60 [creation_request key prompt])"
    using generate_image_trace_cases by blast
  then show ?thesis
  proof cases
    case 1
    then show ?thesis by simp
  next
    case 2
    from poll_loop_trace [of 60 srv image_open u "auth_headers key" "[creation_request key prompt]"]
    show ?thesis unfolding 2 by auto
  qed
qed

section \<open>Properties of \<open>generate_image\<close>\<close>

text \<open>
  C1. For every job handle, the run issues at most 60 authenticated GET requests to it,
  and it returns successfully on the first poll response whose status is \<open>"Ready"\<close>: with
  \<open>k\<close> pending responses before it (\<open>k < 60\<close>), the sample named by \<open>result.sample\<close> is
  fetched with a plain GET, its bytes are decoded to the image that is returned, and
  the requests issued are the creation request, exactly \<open>k + 1\<close> polls and the fetch,
  nothing after. The scenario Pending, Pending, Ready is the witness: 3 polls.
\<close>

theorem poll_stops_at_first_ready:
  "length (filter authenticated_get (snd (generate_image key srv image_open prompt))) \<le> 60 \<and>
   (accepts (srv [] (creation_request key prompt)) u \<and> k < 60 \<and>
    (\<forall>i<k. pending (srv (creation_request key prompt # replicate i (poll_request key u))
                      (poll_request key u))) \<and>
    ready (srv (creation_request key prompt # replicate k (poll_request key u))
             (poll_request key u)) r2 \<and>
    py_getitem r2 ''result'' = Inr res \<and> py_getitem res ''sample'' = Inr s \<and>
    srv (creation_request key prompt # replicate (Suc k) (poll_request key u)) (Get s None) = Inr ir \<and>
    image_open (content ir) = Inr img
    \<longrightarrow> generate_image key srv image_open prompt =
          (Inr (Some img, None),
           creation_request key prompt # replicate (Suc k) (poll_request key u) @ [Get s None]))"
proof (intro conjI impI)
  show "length (filter authenticated_get (snd (generate_image key srv image_open prompt))) \<le> 60"
    by (rule generate_image_polls_le)
next
  let ?cr = "creation_request key prompt"
  let ?pr = "Get u (Some (auth_headers key))"
  assume h: "accepts (srv [] ?cr) u \<and> k < 60 \<and>
    (\<forall>i<k. pending (srv (?cr # replicate i (poll_request key u)) (poll_request key u))) \<and>
    ready (srv (?cr # replicate k (poll_request key u)) (poll_request key u)) r2 \<and>
    py_getitem r2 ''result'' = Inr res \<and> py_getitem res ''sample'' = Inr s \<and>
    srv (?cr # replicate (Suc k) (poll_request key u)) (Get s None) = Inr ir \<and>
    image_open (content ir) = Inr img"
  have pend: "pending (srv ([?cr] @ replicate i ?pr) ?pr)" if "i < k" for i
    using h that by (simp add: poll_request_def)
  have rdy: "ready (srv ([?cr] @ replicate k ?pr) ?pr) r2"
    using h by (simp add: poll_request_def)
  have k60: "k < 60"
    using h by blast
  have loop: "poll_loop srv image_open u (auth_headers key) 60 [?cr] =
      (Some (fst (ready_branch srv image_open r2 ([?cr] @ replicate (Suc k) ?pr))),
       snd (ready_branch srv image_open r2 ([?cr] @ replicate (Suc k) ?pr)))"
    using pend rdy k60 by (rule poll_loop_until_ready)
  have fetch: "srv ([?cr] @ replicate (Suc k) ?pr) (Get s None) = Inr ir"
    using h by (simp add: poll_request_def)
  have "ready_branch srv image_open r2 ([?cr] @ replicate (Suc k) ?pr) =
      (Inr (Some img, None), ([?cr] @ replicate (Suc k) ?pr) @ [Get s None])"
    using h fetch by (intro ready_branch_success) auto
  with loop have "poll_loop srv image_open u (auth_headers key) 60 [?cr] =
      (Some (Inr (Some img, None)), ([?cr] @ replicate (Suc k) ?pr) @ [Get s None])"
    by simp
  moreover have "accepts (srv [] ?cr) u" using h by simp
  ultimately show "generate_image key srv image_open prompt =
      (Inr (Some img, None), ?cr # replicate (Suc k) (poll_request key u) @ [Get s None])"
    by (simp add: generate_image_accepted poll_request_def)
qed

theorem poll_stops_at_first_ready_witness:
  "generate_image (Some ''secret'') scenario_srv png_open ''A serene sunset over a mountain lake'' =
     (Inr (Some sunset_image, None),
      [creation_request (Some ''secret'') ''A serene sunset over a mountain lake'',
       poll_request (Some ''secret'') (JStr ''https://x/p/1''),
       poll_request (Some ''secret'') (JStr ''https://x/p/1''),
       poll_request (Some ''secret'') (JStr ''https://x/p/1''),
       Get (JStr ''https://x/img/1.png'') None]) \<and>
   length (filter authenticated_get
     (snd (generate_image (Some ''secret'') scenario_srv png_open
             ''A serene sunset over a mountain lake''))) = 3"
proof -
  let ?key = "Some ''secret''"
  let ?p = "''A serene sunset over a mountain lake''"
  let ?u = "JStr ''https://x/p/1''"
  let ?s = "JStr ''https://x/img/1.png''"
  let ?res = "JObj [(''sample'', ?s)]"
  let ?r2 = "JObj [(''status'', JStr ''Ready''), (''result'', ?res)]"
  let ?ir = "\<lparr>status_code = 200, text_r = [], content = ''PNG-1'', body_json = None\<rparr>"
  have a: "accepts (scenario_srv [] (creation_request ?key ?p)) ?u"
    by (simp add: accepts_def scenario_srv_def creation_request_def json_response_def ok_def
        py_get_def)
  have b: "\<forall>i<2. pending (scenario_srv (creation_request ?key ?p # replicate i (poll_request ?key ?u))
                (poll_request ?key ?u))"
    by (simp add: pending_def scenario_srv_def poll_request_def json_response_def py_get_def)
  have c: "ready (scenario_srv (creation_request ?key ?p # replicate 2 (poll_request ?key ?u))
                (poll_request ?key ?u)) ?r2"
    by (simp add: ready_def scenario_srv_def poll_request_def json_response_def py_get_def)
  have d: "py_getitem ?r2 ''result'' = Inr ?res" "py_getitem ?res ''sample'' = Inr ?s"
    by (simp_all add: py_getitem_def)
  have e: "scenario_srv (creation_request ?key ?p # replicate (Suc 2) (poll_request ?key ?u))
             (Get ?s None) = Inr ?ir"
    by (simp add: scenario_srv_def)
  have f: "png_open (content ?ir) = Inr sunset_image"
    by (simp add: png_open_def)
  have run: "generate_image ?key scenario_srv png_open ?p =
      (Inr (Some sunset_image, None),
       creation_request ?key ?p # replicate (Suc 2) (poll_request ?key ?u) @ [Get ?s None])"
    using poll_stops_at_first_ready [where key = ?key and srv = scenario_srv and image_open = png_open
        and prompt = ?p and u = ?u and k = 2 and ?r2.0 = ?r2 and res = ?res and s = ?s
        and ir = ?ir and img = sunset_image]
      a b c d e f
    by simp
  show ?thesis
    unfolding run
    by (simp add: eval_nat_numeral authenticated_get_def creation_request_def poll_request_def)
qed

text \<open>
  C2. For every job handle, if none of the 60 poll responses has status \<open>"Ready"\<close>, the
  run ends with the error message \<open>Timeout waiting for image\<close> and no image, having issued
  the creation request and exactly 60 polls, and nothing afterwards.
\<close>

theorem poll_times_out:
  "accepts (srv [] (creation_request key prompt)) u \<Longrightarrow>
   \<forall>i<60. pending (srv (creation_request key prompt # replicate i (poll_request key u))
                     (poll_request key u)) \<Longrightarrow>
   generate_image key srv image_open prompt =
     (Inr (None, Some ''Timeout waiting for image''),
      creation_request key prompt # replicate 60 (poll_request key u))"
proof -
  let ?cr = "creation_request key prompt"
  let ?pr = "Get u (Some (auth_headers key))"
  assume acc: "accepts (srv [] ?cr) u"
    and all: "\<forall>i<60. pending (srv (?cr # replicate i (poll_request key u)) (poll_request key u))"
  have pend: "pending (srv ([?cr] @ replicate i ?pr) ?pr)" if "i < 60" for i
    using all that by (simp add: poll_request_def)
  have "poll_loop srv image_open u (auth_headers key) 60 [?cr] = (None, [?cr] @ replicate 60 ?pr)"
    using pend by (rule poll_loop_never_ready)
  then show ?thesis
    using acc by (simp add: generate_image_accepted poll_request_def)
qed

theorem poll_times_out_witness:
  "generate_image None pending_srv png_open ''sunset'' =
     (Inr (None, Some ''Timeout waiting for image''),
      creation_request None ''sunset'' # replicate 60 (poll_request None (JStr ''https://x/p/1'')))"
proof -
  have a: "accepts (pending_srv [] (creation_request None ''sunset'')) (JStr ''https://x/p/1'')"
    by (simp add: accepts_def pending_srv_def creation_request_def json_response_def ok_def
        py_get_def)
  have b: "\<forall>i<60. pending (pending_srv
               (creation_request None ''sunset'' # replicate i (poll_request None (JStr ''https://x/p/1'')))
               (poll_request None (JStr ''https://x/p/1'')))"
    by (simp add: pending_def pending_srv_def poll_request_def json_response_def py_get_def)
  show ?thesis
    using poll_times_out [OF a b] .
qed

text \<open>
  C3, as the code has it. The check of line 23 is \<open>response.ok\<close>: a creation response whose
  status code is in 400..599 makes the run return no image and the message
  \<open>Error: <status_code> <text>\<close>, with the original status code and body text, and nothing
  is requested after it; a response with any other status code (2xx, but also 1xx, 3xx
  and 600 or more) passes this check, so the run never ends with that message.
\<close>

theorem error_status_is_reported:
  "srv [] (creation_request key prompt) = Inr r \<Longrightarrow>
   (if 400 \<le> status_code r \<and> status_code r < 600
    then generate_image key srv image_open prompt =
           (Inr (None, Some (''Error: '' @ str_int (status_code r) @ '' '' @ text_r r)),
            [creation_request key prompt])
    else fst (generate_image key srv image_open prompt) \<noteq>
           Inr (None, Some (''Error: '' @ str_int (status_code r) @ '' '' @ text_r r)))"
proof -
  let ?cr = "creation_request key prompt"
  let ?err = "Inr (None, Some (''Error: '' @ str_int (status_code r) @ '' '' @ text_r r))"
  assume r: "srv [] ?cr = Inr r"
  show ?thesis
  proof (cases "ok r")
    case False
    then have "400 \<le> status_code r \<and> status_code r < 600"
      by (simp add: ok_def)
    moreover have "generate_image key srv image_open prompt = (?err, [?cr])"
      unfolding generate_image_unfold using r False by simp
    ultimately show ?thesis by simp
  next
    case True
    then have range: "\<not> (400 \<le> status_code r \<and> status_code r < 600)"
      by (simp add: ok_def)
    have "fst (generate_image key srv image_open prompt) \<noteq> ?err"
    proof (cases "body_json r")
      case None
      then show ?thesis
        unfolding generate_image_unfold using r True by simp
    next
      case (Some data)
      show ?thesis
      proof (cases "py_get data ''polling_url''")
        case (Inl e)
        then show ?thesis
          unfolding generate_image_unfold using r True Some by simp
      next
        case (Inr u)
        show ?thesis
        proof (cases "truthy u")
          case False
          then show ?thesis
            unfolding generate_image_unfold using r True Some Inr by simp
        next
          case truthy: True
          have run: "generate_image key srv image_open prompt =
              (case poll_loop srv image_open u (auth_headers key) 60 [?cr] of
                 (Some res, tr) \<Rightarrow> (res, tr)
               | (None, tr) \<Rightarrow> (Inr (None, Some ''Timeout waiting for image''), tr))"
            by (rule generate_image_accepted)
               (simp add: accepts_def r True Some Inr truthy)
          from poll_loop_result [of srv image_open u "auth_headers key" 60 "[?cr]"]
          show ?thesis
            unfolding run by (auto split: prod.split option.split)
        qed
      qed
    qed
    with range show ?thesis by (simp only: if_False not_False_eq_True)
  qed
qed

theorem error_status_is_reported_witness:
  "busy_srv [] (creation_request None ''sunset'') =
     Inr \<lparr>status_code = 503, text_r = ''busy'', content = ''busy'', body_json = None\<rparr> \<and>
   generate_image None busy_srv png_open ''sunset'' =
     (Inr (None, Some ''Error: 503 busy''), [creation_request None ''sunset''])"
proof -
  let ?r = "\<lparr>status_code = 503, text_r = ''busy'', content = ''busy'', body_json = None\<rparr>"
  have a: "busy_srv [] (creation_request None ''sunset'') = Inr ?r"
    by (simp add: busy_srv_def)
  show ?thesis
    using error_status_is_reported [where srv = busy_srv and key = None and prompt = "''sunset''"
        and r = ?r and image_open = png_open] a
    by (simp add: str_int_def digit_char_def)
qed

text \<open>
  C3 as stated fails: a creation response with status 304, which is not in the 2xx range,
  passes the check of line 23; the run goes on to \<open>response.json()\<close> and fails there,
  not with the status code and body text.
\<close>

theorem non_2xx_passes_counterexample:
  "not_modified_srv [] (creation_request None ''sunset'') =
     Inr \<lparr>status_code = 304, text_r = [], content = [], body_json = None\<rparr> \<and>
   \<not> (200 \<le> (304::int) \<and> (304::int) < 300) \<and>
   generate_image None not_modified_srv png_open ''sunset'' =
     (Inl JSONDecodeError, [creation_request None ''sunset'']) \<and>
   fst (generate_image None not_modified_srv png_open ''sunset'') \<noteq>
     Inr (None, Some ''Error: 304 '')"
  by (simp add: generate_image_unfold not_modified_srv_def ok_def)

text \<open>
  C4, as the code has it. For every creation response that passes the status check and
  whose JSON object has no \<open>polling_url\<close> field, whatever else it holds, the run returns no
  image and the message \<open>No polling URL returned\<close> (capital N), and no poll is issued.
\<close>

theorem missing_polling_url_is_reported:
  "srv [] (creation_request key prompt) = Inr r \<Longrightarrow> ok r \<Longrightarrow>
   body_json r = Some (JObj d) \<Longrightarrow> map_of d ''polling_url'' = None \<Longrightarrow>
   generate_image key srv image_open prompt =
     (Inr (None, Some ''No polling URL returned''), [creation_request key prompt])"
  unfolding generate_image_unfold
  by (simp add: py_get_def)

theorem missing_polling_url_is_reported_witness:
  "ok (json_response 200 (JObj [])) \<and>
   generate_image None empty_object_srv png_open ''sunset'' =
     (Inr (None, Some ''No polling URL returned''), [creation_request None ''sunset''])"
proof -
  have a: "empty_object_srv [] (creation_request None ''sunset'') = Inr (json_response 200 (JObj []))"
    by (simp add: empty_object_srv_def)
  have b: "ok (json_response 200 (JObj []))"
    by (simp add: ok_def json_response_def)
  have c: "body_json (json_response 200 (JObj [])) = Some (JObj [])"
    by (simp add: json_response_def)
  show ?thesis
    using missing_polling_url_is_reported [where srv = empty_object_srv and key = None
        and prompt = "''sunset''" and r = "json_response 200 (JObj [])" and d = "[]"
        and image_open = png_open] a b c
    by simp
qed

text \<open>
  C4 as stated fails on the message only: for a 200 response without \<open>polling_url\<close> the
  message returned starts with a capital N, so it is not \<open>no polling URL returned\<close>.
\<close>

theorem polling_url_message_counterexample:
  "map_of [(''id'', JStr ''job-1'')] ''polling_url'' = None \<and>
   generate_image None no_url_srv png_open ''sunset'' =
     (Inr (None, Some ''No polling URL returned''), [creation_request None ''sunset'']) \<and>
   fst (generate_image None no_url_srv png_open ''sunset'') \<noteq>
     Inr (None, Some ''no polling URL returned'')"
  by (simp add: generate_image_unfold no_url_srv_def ok_def json_response_def py_get_def)

text \<open>
  C5, as the code has it. Every run issues exactly one creation request. When the creation
  response passes the status check and its JSON object gives \<open>polling_url\<close> a value that
  Python counts as true (a non-empty string, for one), the requests after the creation
  request are between 1 and 60 polls, each a GET to exactly that value with the same
  headers, followed by at most one plain GET of the sample.
\<close>

theorem polls_the_returned_url:
  "filter is_post (snd (generate_image key srv image_open prompt)) = [creation_request key prompt] \<and>
   (accepts (srv [] (creation_request key prompt)) u \<longrightarrow>
    (\<exists>k fin. 1 \<le> k \<and> k \<le> 60 \<and>
       snd (generate_image key srv image_open prompt) =
         creation_request key prompt # replicate k (poll_request key u) @ fin \<and>
       (fin = [] \<or> (\<exists>s. fin = [Get s None]))))"
proof (intro conjI impI)
  show "filter is_post (snd (generate_image key srv image_open prompt)) = [creation_request key prompt]"
    by (rule generate_image_one_post)
next
  let ?cr = "creation_request key prompt"
  assume "accepts (srv [] ?cr) u"
  then have tr: "snd (generate_image key srv image_open prompt) =
      snd (poll_loop srv image_open u (auth_headers key) 60 [?cr])"
    by (simp add: generate_image_accepted split: prod.split option.split)
  from poll_loop_trace [of 60 srv image_open u "auth_headers key" "[?cr]"]
  obtain k fin where "k \<le> 60" "1 \<le> k"
    and "snd (poll_loop srv image_open u (auth_headers key) 60 [?cr]) =
           ?cr # replicate k (poll_request key u) @ fin"
    and "fin = [] \<or> (\<exists>s. fin = [Get s None])"
    by (auto simp: poll_request_def)
  with tr show "\<exists>k fin. 1 \<le> k \<and> k \<le> 60 \<and>
       snd (generate_image key srv image_open prompt) = ?cr # replicate k (poll_request key u) @ fin \<and>
       (fin = [] \<or> (\<exists>s. fin = [Get s None]))"
    by metis
qed

theorem polls_the_returned_url_witness:
  "accepts (scenario_srv [] (creation_request None ''sunset'')) (JStr ''https://x/p/1'') \<and>
   filter is_post (snd (generate_image None scenario_srv png_open ''sunset'')) =
     [creation_request None ''sunset''] \<and>
   (\<exists>k fin. 1 \<le> k \<and> k \<le> 60 \<and>
      snd (generate_image None scenario_srv png_open ''sunset'') =
        creation_request None ''sunset'' # replicate k (poll_request None (JStr ''https://x/p/1'')) @ fin \<and>
      (fin = [] \<or> (\<exists>s. fin = [Get s None])))"
proof -
  have a: "accepts (scenario_srv [] (creation_request None ''sunset'')) (JStr ''https://x/p/1'')"
    by (simp add: accepts_def scenario_srv_def creation_request_def json_response_def ok_def
        py_get_def)
  show ?thesis
    using polls_the_returned_url [of None scenario_srv png_open "''sunset''" "JStr ''https://x/p/1''"] a
    by blast
qed

text \<open>
  C5 as stated fails: a 200 response whose JSON object contains the field \<open>polling_url\<close> with
  the empty string as its value is treated as if the field were missing; nothing is polled.
\<close>

theorem empty_polling_url_counterexample:
  "empty_url_srv [] (creation_request None ''sunset'') =
     Inr (json_response 200 (JObj [(''polling_url'', JStr [])])) \<and>
   map_of [(''polling_url'', JStr [])] ''polling_url'' = Some (JStr []) \<and>
   generate_image None empty_url_srv png_open ''sunset'' =
     (Inr (None, Some ''No polling URL returned''), [creation_request None ''sunset''])"
  by (simp add: generate_image_unfold empty_url_srv_def ok_def json_response_def py_get_def)

text \<open>
  C6. For every prompt, the first request of the run, and its only POST, goes to
  \<open>BASE_URL\<close> followed by \<open>GEN_PATH\<close>, with the JSON body
  \<open>{"prompt": prompt, "aspect_ratio": "1:1"}\<close> and the headers \<open>x-key\<close>, set to the
  credential, and \<open>accept\<close>, set to \<open>application/json\<close>.
\<close>

theorem creation_request_shape:
  "take 1 (snd (generate_image key srv image_open prompt)) =
     [Post (BASE_URL @ GEN_PATH)
        (JObj [(''prompt'', JStr prompt), (''aspect_ratio'', JStr ''1:1'')])
        [(''x-key'', key), (''accept'', Some ''application/json'')]] \<and>
   filter is_post (snd (generate_image key srv image_open prompt)) =
     [Post (BASE_URL @ GEN_PATH)
        (JObj [(''prompt'', JStr prompt), (''aspect_ratio'', JStr ''1:1'')])
        [(''x-key'', key), (''accept'', Some ''application/json'')]] \<and>
   BASE_URL @ GEN_PATH = ''https://api.bfl.ai/v1/flux-pro-1.1-ultra'' \<and>
   map_of [(''x-key'', key), (''accept'', Some ''application/json'')] ''x-key'' = Some key \<and>
   map_of [(''x-key'', key), (''accept'', Some ''application/json'')] ''accept''
     = Some (Some ''application/json'')"
proof -
  have cr: "Post (BASE_URL @ GEN_PATH)
        (JObj [(''prompt'', JStr prompt), (''aspect_ratio'', JStr ''1:1'')])
        [(''x-key'', key), (''accept'', Some ''application/json'')] = creation_request key prompt"
    unfolding creation_url creation_request_def auth_headers_def ..
  obtain rest where "snd (generate_image key srv image_open prompt) = creation_request key prompt # rest"
    using generate_image_first by blast
  then have "take 1 (snd (generate_image key srv image_open prompt)) = [creation_request key prompt]"
    by simp
  then show ?thesis
    unfolding cr by (simp add: generate_image_one_post creation_url)
qed

theorem creation_request_shape_witness:
  "take 1 (snd (generate_image (Some ''secret'') unauthorized_srv png_open ''a red fox'')) =
     [Post ''https://api.bfl.ai/v1/flux-pro-1.1-ultra''
        (JObj [(''prompt'', JStr ''a red fox''), (''aspect_ratio'', JStr ''1:1'')])
        [(''x-key'', Some ''secret''), (''accept'', Some ''application/json'')]]"
  using creation_request_shape [of "Some ''secret''" unauthorized_srv png_open "''a red fox''"]
  by (simp add: BASE_URL_def GEN_PATH_def)

text \<open>
  C7. When the creation call answers with status 401 and the text \<open>unauthorized\<close>, the run
  returns no image and the message \<open>Error: 401 unauthorized\<close>; the creation request is the
  only request issued, so no poll is made.
\<close>

theorem unauthorized_is_reported:
  "srv [] (creation_request key prompt) = Inr r \<Longrightarrow> status_code r = 401 \<Longrightarrow>
   text_r r = ''unauthorized'' \<Longrightarrow>
   generate_image key srv image_open prompt =
     (Inr (None, Some ''Error: 401 unauthorized''), [creation_request key prompt]) \<and>
   filter authenticated_get (snd (generate_image key srv image_open prompt)) = []"
  unfolding generate_image_unfold
  by (simp add: ok_def str_int_def digit_char_def authenticated_get_def creation_request_def)

theorem unauthorized_is_reported_witness:
  "generate_image None unauthorized_srv png_open ''sunset'' =
     (Inr (None, Some ''Error: 401 unauthorized''), [creation_request None ''sunset''])"
proof -
  let ?r = "\<lparr>status_code = 401, text_r = ''unauthorized'', content = ''unauthorized'',
              body_json = None\<rparr>"
  have a: "unauthorized_srv [] (creation_request None ''sunset'') = Inr ?r"
    by (simp add: unauthorized_srv_def)
  show ?thesis
    using unauthorized_is_reported [where srv = unauthorized_srv and key = None
        and prompt = "''sunset''" and r = ?r and image_open = png_open] a
    by simp
qed

text \<open>
  C8. If the first poll response whose status is \<open>"Ready"\<close> has no \<open>result\<close> field, or its
  \<open>result\<close> has no \<open>sample\<close> field, the run does not return at all: the subscript raises
  (\<open>KeyError\<close>, or \<open>TypeError\<close> when \<open>result\<close> is not an object), after that poll and with
  no fetch. So it returns neither the timeout message nor the missing-URL message, and
  the success branch needs every Ready response to carry \<open>result.sample\<close>.
\<close>

theorem ready_without_sample_raises:
  "accepts (srv [] (creation_request key prompt)) u \<Longrightarrow> k < 60 \<Longrightarrow>
   \<forall>i<k. pending (srv (creation_request key prompt # replicate i (poll_request key u))
                    (poll_request key u)) \<Longrightarrow>
   ready (srv (creation_request key prompt # replicate k (poll_request key u))
            (poll_request key u)) r2 \<Longrightarrow>
   lacks_sample r2 \<Longrightarrow>
   fst (generate_image key srv image_open prompt)
     \<in> {Inl (KeyError ''result''), Inl (KeyError ''sample''), Inl TypeError} \<and>
   fst (generate_image key srv image_open prompt) \<noteq> Inr (None, Some ''Timeout waiting for image'') \<and>
   fst (generate_image key srv image_open prompt) \<noteq> Inr (None, Some ''No polling URL returned'') \<and>
   snd (generate_image key srv image_open prompt) =
     creation_request key prompt # replicate (Suc k) (poll_request key u)"
proof -
  let ?cr = "creation_request key prompt"
  let ?pr = "Get u (Some (auth_headers key))"
  assume acc: "accepts (srv [] ?cr) u" and k: "k < 60"
    and all: "\<forall>i<k. pending (srv (?cr # replicate i (poll_request key u)) (poll_request key u))"
    and r: "ready (srv (?cr # replicate k (poll_request key u)) (poll_request key u)) r2"
    and lacks: "lacks_sample r2"
  have pend: "pending (srv ([?cr] @ replicate i ?pr) ?pr)" if "i < k" for i
    using all that by (simp add: poll_request_def)
  have rdy: "ready (srv ([?cr] @ replicate k ?pr) ?pr) r2"
    using r by (simp add: poll_request_def)
  have loop: "poll_loop srv image_open u (auth_headers key) 60 [?cr] =
      (Some (fst (ready_branch srv image_open r2 ([?cr] @ replicate (Suc k) ?pr))),
       snd (ready_branch srv image_open r2 ([?cr] @ replicate (Suc k) ?pr)))"
    using pend rdy k by (rule poll_loop_until_ready)
  have st: "py_get r2 ''status'' = Inr (JStr ''Ready'')"
    using r by (auto simp: ready_def split: sum.splits)
  note rb = ready_branch_lacks [OF st lacks, of srv image_open "[?cr] @ replicate (Suc k) ?pr"]
  have run: "generate_image key srv image_open prompt =
      (fst (ready_branch srv image_open r2 ([?cr] @ replicate (Suc k) ?pr)),
       [?cr] @ replicate (Suc k) ?pr)"
    using acc rb by (simp add: generate_image_accepted loop)
  show ?thesis
    unfolding run using rb by (auto simp: poll_request_def)
qed

theorem ready_without_sample_raises_witness:
  "lacks_sample (JObj [(''status'', JStr ''Ready'')]) \<and>
   generate_image None ready_no_result_srv png_open ''sunset'' =
     (Inl (KeyError ''result''),
      [creation_request None ''sunset'', poll_request None (JStr ''https://x/p/1'')])"
proof -
  let ?u = "JStr ''https://x/p/1''"
  let ?r2 = "JObj [(''status'', JStr ''Ready'')]"
  have a: "accepts (ready_no_result_srv [] (creation_request None ''sunset'')) ?u"
    by (simp add: accepts_def ready_no_result_srv_def creation_request_def json_response_def
        ok_def py_get_def)
  have b: "\<forall>i<0. pending (ready_no_result_srv
              (creation_request None ''sunset'' # replicate i (poll_request None ?u))
              (poll_request None ?u))"
    by simp
  have c: "ready (ready_no_result_srv
              (creation_request None ''sunset'' # replicate 0 (poll_request None ?u))
              (poll_request None ?u)) ?r2"
    by (simp add: ready_def ready_no_result_srv_def poll_request_def json_response_def py_get_def)
  have d: "lacks_sample ?r2"
    by (simp add: lacks_sample_def)
  have e: "(0::nat) < 60"
    by simp
  have raised: "fst (generate_image None ready_no_result_srv png_open ''sunset'')
      = Inl (KeyError ''result'')"
    by (simp add: generate_image_def Let_def creation_url ready_no_result_srv_def
        json_response_def ok_def py_get_def py_getitem_def eval_nat_numeral ready_branch_def)
  show ?thesis
    using ready_without_sample_raises [where srv = ready_no_result_srv and key = None
        and prompt = "''sunset''" and u = ?u and k = 0 and ?r2.0 = ?r2 and image_open = png_open]
      a b c d e raised
    by (simp add: prod_eq_iff)
qed

end
